theory Spec2Isabelle
  imports Complex_Main
begin

section \<open>Command line\<close>

text \<open>
  The options of \<^verbatim>\<open>main.py\<close> that the modelled code reads.  Python floats are
  modelled by real numbers throughout: rounding is not part of the model.
\<close>

record args =
  baseline :: bool
  retrain :: bool
  rollback :: bool
  strategy :: string
  dataset :: string
  lr :: real
  momentum :: real
  dampening :: real
  nesterov :: bool
  weight_decay :: real
  meta_lr :: real
  meta_weight_decay :: real

text \<open>The parser's defaults (\<^verbatim>\<open>store_true\<close> flags default to False).\<close>

definition default_args :: args where
  "default_args =
     \<lparr>baseline = False, retrain = False, rollback = False, strategy = ''default'',
      dataset = ''cifar10'', lr = 1 / 10, momentum = 9 / 10, dampening = 0,
      nesterov = False, weight_decay = 5 / 10000, meta_lr = 1 / 100000,
      meta_weight_decay = 0\<rparr>"

datatype error = ValueError | IndexError | RuntimeError | ZeroDivisionError

section \<open>Python's short-circuit operators\<close>

text \<open>
  \<^verbatim>\<open>a and b\<close> is \<^verbatim>\<open>b\<close> when \<^verbatim>\<open>a\<close> is truthy and \<^verbatim>\<open>a\<close> otherwise;
  \<^verbatim>\<open>a or b\<close> is \<^verbatim>\<open>a\<close> when \<^verbatim>\<open>a\<close> is truthy and \<^verbatim>\<open>b\<close> otherwise.  Both return
  an operand, not a boolean.
\<close>

datatype pyval = PyBool bool | PyInt int

fun truthy :: "pyval \<Rightarrow> bool" where
  "truthy (PyBool b) = b"
| "truthy (PyInt n) = (n \<noteq> 0)"

definition py_and :: "pyval \<Rightarrow> pyval \<Rightarrow> pyval" where
  "py_and a b = (if truthy a then b else a)"

definition py_or :: "pyval \<Rightarrow> pyval \<Rightarrow> pyval" where
  "py_or a b = (if truthy a then a else b)"

text \<open>
  \<^verbatim>\<open>Inner.configure_module\<close>: the argument handed to \<^verbatim>\<open>ResNet32\<close>,
  \<^verbatim>\<open>args.dataset == "cifar10" and 10 or 100\<close>.
\<close>

definition num_classes :: "args \<Rightarrow> pyval" where
  "num_classes a = py_or (py_and (PyBool (dataset a = ''cifar10'')) (PyInt 10)) (PyInt 100)"

section \<open>Problems and their dependencies\<close>

datatype problem = Outer | Inner

text \<open>Lines 196 to 203: the list of problems and the two dependency dictionaries.\<close>

definition problems :: "args \<Rightarrow> problem list" where
  "problems a = (if baseline a \<or> retrain a then [Inner] else [Outer, Inner])"

definition u2l :: "args \<Rightarrow> (problem \<rightharpoonup> problem list)" where
  "u2l a = (if baseline a \<or> retrain a then Map.empty else [Outer \<mapsto> [Inner]])"

definition l2u :: "args \<Rightarrow> (problem \<rightharpoonup> problem list)" where
  "l2u a = (if baseline a \<or> retrain a then Map.empty else [Inner \<mapsto> [Outer]])"

definition dependencies :: "args \<Rightarrow> (string \<rightharpoonup> (problem \<rightharpoonup> problem list))" where
  "dependencies a = [''l2u'' \<mapsto> l2u a, ''u2l'' \<mapsto> u2l a]"

section \<open>Tensors and the library functions the training steps call\<close>

text \<open>
  A 2-D tensor is the list of its rows and a 1-D tensor the list of its entries.  The
  shape of a tensor with no rows is not tracked.  \<^verbatim>\<open>detach\<close> and \<^verbatim>\<open>.long()\<close> change
  gradient tracking and the element type, not the values, so they are the identity here;
  class labels are natural numbers.  A reduction of an empty tensor is \<^verbatim>\<open>nan\<close>.
\<close>

datatype scalar = NaN | Val real

definition torch_mean :: "real list \<Rightarrow> scalar" where
  "torch_mean xs = (if xs = [] then NaN else Val (sum_list xs / real (length xs)))"

definition detach :: "real list list \<Rightarrow> real list list" where
  "detach t = t"

text \<open>\<^verbatim>\<open>torch.reshape(v, (-1, 1))\<close>: one row per entry.\<close>

definition reshape_col :: "real list \<Rightarrow> real list list" where
  "reshape_col v = map (\<lambda>x. [x]) v"

text \<open>
  Elementwise product with broadcasting: along a dimension the sizes are equal or one of
  them is 1, otherwise the library raises RuntimeError.
\<close>

definition mul_row :: "real list \<Rightarrow> real list \<Rightarrow> error + real list" where
  "mul_row xs ys =
     (if length xs = length ys then Inr (map2 (*) xs ys)
      else if length xs = 1 then Inr (map ((*) (hd xs)) ys)
      else if length ys = 1 then Inr (map (\<lambda>x. x * hd ys) xs)
      else Inl RuntimeError)"

fun sequence :: "(error + 'a) list \<Rightarrow> error + 'a list" where
  "sequence [] = Inr []"
| "sequence (r # rs) =
     (case r of
        Inl e \<Rightarrow> Inl e
      | Inr v \<Rightarrow> (case sequence rs of Inl e \<Rightarrow> Inl e | Inr vs \<Rightarrow> Inr (v # vs)))"

definition tensor_mul :: "real list list \<Rightarrow> real list list \<Rightarrow> error + real list list" where
  "tensor_mul s t =
     (if length s = length t then sequence (map2 mul_row s t)
      else if length s = 1 then sequence (map (mul_row (hd s)) t)
      else if length t = 1 then sequence (map (\<lambda>r. mul_row r (hd t)) s)
      else Inl RuntimeError)"

text \<open>
  \<^verbatim>\<open>F.cross_entropy\<close> on a batch of logit rows and class indices.  The loss of one
  sample is the negative log of its softmax probability at the label.  The batch sizes
  must agree (ValueError) and every label must index a class (IndexError).  With
  \<^verbatim>\<open>reduction="none"\<close> the result is the vector of per-sample losses, with the default
  reduction their mean.
\<close>

definition nll :: "real list \<Rightarrow> nat \<Rightarrow> real" where
  "nll row y = ln (sum_list (map exp row)) - row ! y"

definition cross_entropy_none :: "real list list \<Rightarrow> nat list \<Rightarrow> error + real list" where
  "cross_entropy_none outputs labels =
     (if length outputs \<noteq> length labels then Inl ValueError
      else if list_ex (\<lambda>(row, y). length row \<le> y) (zip outputs labels) then Inl IndexError
      else Inr (map2 nll outputs labels))"

definition cross_entropy :: "real list list \<Rightarrow> nat list \<Rightarrow> error + scalar" where
  "cross_entropy outputs labels =
     (case cross_entropy_none outputs labels of
        Inl e \<Rightarrow> Inl e
      | Inr ls \<Rightarrow> Inr (torch_mean ls))"

text \<open>\<^verbatim>\<open>argmax\<close> of a row: the index of the first maximal entry.\<close>

definition argmax :: "real list \<Rightarrow> nat" where
  "argmax row = (let m = fold max row (hd row) in length (takeWhile (\<lambda>z. z < m) row))"

text \<open>\<^verbatim>\<open>t.argmax(dim=1)\<close>: a row without entries has no maximum (IndexError).\<close>

definition argmax_dim1 :: "real list list \<Rightarrow> error + nat list" where
  "argmax_dim1 t = (if list_ex (\<lambda>row. row = []) t then Inl IndexError else Inr (map argmax t))"

section \<open>The two problems\<close>

text \<open>
  The networks are defined outside \<^verbatim>\<open>main.py\<close>; they are parameters here.  The
  classifier \<open>net\<close> maps its parameters and a batch of samples to one row of logits per
  sample; the meta-weight network \<open>mlp\<close> maps its parameters and a 2-D tensor to a 2-D
  tensor.  A batch is a pair of the samples and their labels.
\<close>

type_synonym ('p, 'x) classifier = "'p \<Rightarrow> 'x list \<Rightarrow> real list list"
type_synonym 'q weight_net = "'q \<Rightarrow> real list list \<Rightarrow> real list list"
type_synonym 'x batch = "'x list \<times> nat list"

definition Inner_forward :: "('p, 'x) classifier \<Rightarrow> 'p \<Rightarrow> 'x list \<Rightarrow> real list list" where
  "Inner_forward net p x = net p x"

definition Outer_forward :: "'q weight_net \<Rightarrow> 'q \<Rightarrow> real list list \<Rightarrow> real list list" where
  "Outer_forward mlp q x = mlp q x"

text \<open>\<^verbatim>\<open>Inner.training_step\<close> (lines 119 to 129).\<close>

definition Inner_training_step ::
  "args \<Rightarrow> ('p, 'x) classifier \<Rightarrow> 'p \<Rightarrow> 'q weight_net \<Rightarrow> 'q \<Rightarrow> 'x batch \<Rightarrow> error + scalar" where
  "Inner_training_step a net p mlp q batch =
     (case batch of (inputs, labels) \<Rightarrow>
        let outputs = Inner_forward net p inputs in
        if baseline a \<or> retrain a then cross_entropy outputs labels
        else
          (case cross_entropy_none outputs labels of
             Inl e \<Rightarrow> Inl e
           | Inr loss_vector \<Rightarrow>
               let loss_vector_reshape = reshape_col loss_vector;
                   weight = Outer_forward mlp q (detach loss_vector_reshape)
               in (case tensor_mul weight loss_vector_reshape of
                     Inl e \<Rightarrow> Inl e
                   | Inr weighted \<Rightarrow> Inr (torch_mean (concat weighted)))))"

text \<open>
  \<^verbatim>\<open>Outer.training_step\<close> (lines 89 to 95) returns a dictionary with the keys
  \<^verbatim>\<open>loss\<close> and \<^verbatim>\<open>acc\<close>.  \<open>p\<close> is the inner problem's parameters at the time of the
  call: the method reaches the classifier through \<^verbatim>\<open>self.inner\<close>.
\<close>

record step_result =
  loss :: scalar
  acc :: scalar

definition times100 :: "scalar \<Rightarrow> scalar" where
  "times100 s = (case s of NaN \<Rightarrow> NaN | Val v \<Rightarrow> Val (v * 100))"

definition Outer_training_step ::
  "('p, 'x) classifier \<Rightarrow> 'p \<Rightarrow> 'x batch \<Rightarrow> error + step_result" where
  "Outer_training_step net p batch =
     (case batch of (inputs, labels) \<Rightarrow>
        let outputs = Inner_forward net p inputs in
        (case cross_entropy outputs labels of
           Inl e \<Rightarrow> Inl e
         | Inr l \<Rightarrow>
             (case argmax_dim1 outputs of
                Inl e \<Rightarrow> Inl e
              | Inr preds \<Rightarrow>
                  Inr \<lparr>loss = l,
                       acc = times100 (torch_mean
                         (map2 (\<lambda>c y. if c = y then 1 else 0) preds labels))\<rparr>)))"

text \<open>The data loaders built at lines 63 to 80, and which problem trains on which.\<close>

record 'b loaders =
  train_dataloader :: "'b list"
  meta_dataloader :: "'b list"
  test_dataloader :: "'b list"

definition Outer_configure_train_data_loader :: "'b loaders \<Rightarrow> 'b list" where
  "Outer_configure_train_data_loader dl = meta_dataloader dl"

definition Inner_configure_train_data_loader :: "'b loaders \<Rightarrow> 'b list" where
  "Inner_configure_train_data_loader dl = train_dataloader dl"

section \<open>Optimizers and the learning-rate schedule\<close>

text \<open>
  The optimizers' constructors reject negative hyperparameters with ValueError; SGD also
  rejects Nesterov momentum without a positive momentum and zero dampening.  The field
  \<open>params\<close> names the problem whose module's parameters the optimizer updates.
\<close>

record sgd =
  sgd_params :: problem
  sgd_lr :: real
  sgd_momentum :: real
  sgd_dampening :: real
  sgd_weight_decay :: real
  sgd_nesterov :: bool

record adam =
  adam_params :: problem
  adam_lr :: real
  adam_weight_decay :: real

definition Outer_configure_optimizer :: "args \<Rightarrow> error + adam" where
  "Outer_configure_optimizer a =
     (if meta_lr a < 0 \<or> meta_weight_decay a < 0 then Inl ValueError
      else Inr \<lparr>adam_params = Outer, adam_lr = meta_lr a,
                adam_weight_decay = meta_weight_decay a\<rparr>)"

definition Inner_configure_optimizer :: "args \<Rightarrow> error + sgd" where
  "Inner_configure_optimizer a =
     (if lr a < 0 \<or> momentum a < 0 \<or> weight_decay a < 0
         \<or> (nesterov a \<and> (momentum a \<le> 0 \<or> dampening a \<noteq> 0))
      then Inl ValueError
      else Inr \<lparr>sgd_params = Inner, sgd_lr = lr a, sgd_momentum = momentum a,
                sgd_dampening = dampening a, sgd_weight_decay = weight_decay a,
                sgd_nesterov = nesterov a\<rparr>)"

record multistep_lr =
  milestones :: "nat list"
  gamma :: real

definition Inner_configure_scheduler :: multistep_lr where
  "Inner_configure_scheduler = \<lparr>milestones = [10000, 13000], gamma = 1 / 10\<rparr>"

text \<open>
  The learning rate MultiStepLR sets after \<open>t\<close> scheduler steps: the optimizer's initial
  rate times \<open>gamma\<close> to the number of milestones reached.
\<close>

definition get_lr :: "sgd \<Rightarrow> multistep_lr \<Rightarrow> nat \<Rightarrow> real" where
  "get_lr opt sch t = sgd_lr opt * gamma sch ^ length (filter (\<lambda>m. m \<le> t) (milestones sch))"

text \<open>
  Modelled from the spec: the order of one iteration of the bilevel engine in the
  meta-learning mode.  The engine is an external library, so its scheduling is not in
  \<^verbatim>\<open>main.py\<close>, which only configures it (line 185: the inner problem unrolls one
  step).  The spec says that the outer network is trained on "a clean meta-validation
  loss computed using the inner network's updated parameters": in an iteration the inner
  problem takes its optimizer step first and the outer training step runs on the result.
  \<open>inner_update\<close> is the inner optimizer's step from the inner parameters, the outer
  parameters and a training batch.
\<close>

definition engine_meta_loss ::
  "('p, 'x) classifier \<Rightarrow> ('p \<Rightarrow> 'q \<Rightarrow> 'x batch \<Rightarrow> 'p) \<Rightarrow> 'p \<Rightarrow> 'q \<Rightarrow> 'x batch \<Rightarrow> 'x batch
     \<Rightarrow> error + step_result" where
  "engine_meta_loss net inner_update p q train_batch meta_batch =
     Outer_training_step net (inner_update p q train_batch) meta_batch"

section \<open>Validation and checkpoints\<close>

text \<open>
  What \<^verbatim>\<open>validation\<close> reads and writes: the two modules' parameters, the engine's
  step counter, the global \<^verbatim>\<open>best_acc\<close> and the files written by \<^verbatim>\<open>torch.save\<close>
  (a map from path to saved state dictionary; a write always succeeds).
\<close>

datatype ('p, 'q) state_dict = InnerState 'p | OuterState 'q

record ('p, 'q) world =
  inner_module :: 'p
  outer_module :: 'q
  global_step :: nat
  best_acc :: real
  files :: "string \<rightharpoonup> ('p, 'q) state_dict"

text \<open>Line 155.\<close>

definition initial_best_acc :: real where
  "initial_best_acc = - 1"

text \<open>The decimal digits of a counter, as an f-string prints them.\<close>

function str_nat :: "nat \<Rightarrow> string" where
  "str_nat n =
     (if n < 10 then [''0123456789'' ! n]
      else str_nat (n div 10) @ [''0123456789'' ! (n mod 10)])"
  by pat_completeness auto
termination
  by (relation "measure (\<lambda>n. n)") auto

declare str_nat.simps [simp del]

definition net_path :: "args \<Rightarrow> nat \<Rightarrow> string" where
  "net_path a step = dataset a @ ''/net_'' @ str_nat step @ ''.pt''"

definition meta_net_path :: "args \<Rightarrow> nat \<Rightarrow> string" where
  "meta_net_path a step = dataset a @ ''/meta_net_'' @ str_nat step @ ''.pt''"

text \<open>
  \<^verbatim>\<open>(out.argmax(dim=1) == target).sum().item()\<close>: the comparison broadcasts like the
  product above.
\<close>

definition count_equal :: "nat list \<Rightarrow> nat list \<Rightarrow> error + nat" where
  "count_equal preds target =
     (if length preds = length target
      then Inr (length (filter (\<lambda>(c, y). c = y) (zip preds target)))
      else if length preds = 1 then Inr (length (filter (\<lambda>y. hd preds = y) target))
      else if length target = 1 then Inr (length (filter (\<lambda>c. c = hd target) preds))
      else Inl RuntimeError)"

text \<open>The loop over the test loader (lines 164 to 169), with its two counters.\<close>

fun test_loop ::
  "('p, 'x) classifier \<Rightarrow> 'p \<Rightarrow> 'x batch list \<Rightarrow> nat \<Rightarrow> nat \<Rightarrow> error + nat \<times> nat" where
  "test_loop net p [] correct total_n = Inr (correct, total_n)"
| "test_loop net p ((x, target) # rest) correct total_n =
     (case argmax_dim1 (Inner_forward net p x) of
        Inl e \<Rightarrow> Inl e
      | Inr preds \<Rightarrow>
          (case count_equal preds target of
             Inl e \<Rightarrow> Inl e
           | Inr c \<Rightarrow> test_loop net p rest (correct + c) (total_n + length x)))"

text \<open>The dictionary \<^verbatim>\<open>validation\<close> returns.\<close>

record valid_result =
  result_acc :: real
  result_best_acc :: real

text \<open>
  \<^verbatim>\<open>ReweightingEngine.validation\<close> (lines 160 to 181).  The division of two Python
  integers raises ZeroDivisionError when the test loader yields no sample (\<open>total_n\<close> is the source's \<^verbatim>\<open>total\<close>).
\<close>

definition validation ::
  "args \<Rightarrow> ('p, 'x) classifier \<Rightarrow> 'x batch list \<Rightarrow> ('p, 'q) world
     \<Rightarrow> error + valid_result \<times> ('p, 'q) world" where
  "validation a net test w =
     (case test_loop net (inner_module w) test 0 0 of
        Inl e \<Rightarrow> Inl e
      | Inr (correct, total_n) \<Rightarrow>
          if total_n = 0 then Inl ZeroDivisionError
          else
            let accuracy = real correct / real total_n * 100;
                w1 = (if best_acc w < accuracy then w\<lparr>best_acc := accuracy\<rparr> else w);
                w2 = (if \<not> retrain a \<and> \<not> baseline a
                      then w1\<lparr>files := (files w1)
                             (net_path a (global_step w1) \<mapsto> InnerState (inner_module w1),
                              meta_net_path a (global_step w1) \<mapsto> OuterState (outer_module w1))\<rparr>
                      else w1)
            in Inr (\<lparr>result_acc = accuracy, result_best_acc = best_acc w2\<rparr>, w2))"

text \<open>
  A run of the program, as far as \<^verbatim>\<open>best_acc\<close> can see it: training changes the
  modules and the step counter, and nothing but \<^verbatim>\<open>validation\<close> assigns
  \<^verbatim>\<open>best_acc\<close> or writes a file.  The second component lists the accuracies of the
  validations so far, oldest first.
\<close>

inductive reaches ::
  "args \<Rightarrow> ('p, 'x) classifier \<Rightarrow> 'x batch list \<Rightarrow> ('p, 'q) world \<times> real list
     \<Rightarrow> ('p, 'q) world \<times> real list \<Rightarrow> bool"
  for a :: args and net :: "('p, 'x) classifier" and test :: "'x batch list" where
  start: "reaches a net test s s"
| train: "reaches a net test s (w, accs) \<Longrightarrow>
     reaches a net test s (w\<lparr>inner_module := p, outer_module := q, global_step := g\<rparr>, accs)"
| valid: "reaches a net test s (w, accs) \<Longrightarrow> validation a net test w = Inr (r, w') \<Longrightarrow>
     reaches a net test s (w', accs @ [result_acc r])"

section \<open>The engine's configuration and loop\<close>

record EngineConfig =
  train_iters :: nat
  valid_step :: nat
  engine_strategy :: string
  roll_back :: bool
  logger_type :: string

text \<open>Lines 186 to 192.\<close>

definition engine_config :: "args \<Rightarrow> EngineConfig" where
  "engine_config a =
     \<lparr>train_iters = 15000, valid_step = 500, engine_strategy = strategy a,
      roll_back = rollback a, logger_type = ''tensorboard''\<rparr>"

text \<open>
  Modelled from the spec: the loop of \<^verbatim>\<open>engine.run()\<close>.  The engine is an external
  library; the spec says that the driver "runs the engine for a fixed number of
  iterations, periodically evaluates test accuracy".  The iterations are numbered from 1
  to \<open>train_iters\<close>; each one advances the step counter and runs one training step
  (\<open>train_step\<close>, a parameter, which may raise), and an iteration whose number is a
  multiple of \<open>valid_step\<close> then calls \<^verbatim>\<open>validation\<close> and logs its result.
\<close>

definition engine_iteration ::
  "EngineConfig \<Rightarrow> args \<Rightarrow> ('p, 'x) classifier \<Rightarrow> 'x batch list
     \<Rightarrow> (nat \<Rightarrow> 'p \<times> 'q \<Rightarrow> error + 'p \<times> 'q)
     \<Rightarrow> nat \<Rightarrow> ('p, 'q) world \<times> valid_result list
     \<Rightarrow> error + ('p, 'q) world \<times> valid_result list" where
  "engine_iteration cfg a net test train_step it s =
     (case s of (w, logged) \<Rightarrow>
        (case train_step it (inner_module w, outer_module w) of
           Inl e \<Rightarrow> Inl e
         | Inr (p, q) \<Rightarrow>
             let w1 = w\<lparr>inner_module := p, outer_module := q,
                        global_step := global_step w + 1\<rparr>
             in if valid_step cfg = 0 then Inl ZeroDivisionError
                else if it mod valid_step cfg = 0
                then (case validation a net test w1 of
                        Inl e \<Rightarrow> Inl e
                      | Inr (r, w2) \<Rightarrow> Inr (w2, logged @ [r]))
                else Inr (w1, logged)))"

text \<open>
  Modelled from the spec: the engine's loop over the iteration numbers 1 to
  \<open>train_iters\<close> (the engine is not in the sources).  A raised error ends the run.
\<close>

function engine_loop ::
  "EngineConfig \<Rightarrow> (nat \<Rightarrow> 's \<Rightarrow> error + 's) \<Rightarrow> nat \<Rightarrow> 's \<Rightarrow> error + 's" where
  "engine_loop cfg body it s =
     (if it \<le> train_iters cfg
      then (case body it s of Inl e \<Rightarrow> Inl e | Inr s' \<Rightarrow> engine_loop cfg body (Suc it) s')
      else Inr s)"
  by pat_completeness auto
termination
  by (relation "measure (\<lambda>(cfg, body, it, s). Suc (train_iters cfg) - it)") auto

declare engine_loop.simps [simp del]

text \<open>
  Modelled from the spec: \<^verbatim>\<open>engine.run()\<close> (line 208) with the configuration of lines
  186 to 192, starting at iteration 1.
\<close>

definition engine_run ::
  "args \<Rightarrow> ('p, 'x) classifier \<Rightarrow> 'x batch list \<Rightarrow> (nat \<Rightarrow> 'p \<times> 'q \<Rightarrow> error + 'p \<times> 'q)
     \<Rightarrow> ('p, 'q) world \<times> valid_result list \<Rightarrow> error + ('p, 'q) world \<times> valid_result list" where
  "engine_run a net test train_step s =
     engine_loop (engine_config a)
       (engine_iteration (engine_config a) a net test train_step) 1 s"

section \<open>Example inputs\<close>

text \<open>
  Concrete inputs for the instances below: a classifier whose samples are their own
  logits, a test loader of one batch with two samples of which the first is classified
  correctly, and a world at step 500 with no file and a given \<^verbatim>\<open>best_acc\<close>.
\<close>

definition logits_classifier :: "(unit, real list) classifier" where
  "logits_classifier p xs = xs"

definition example_test :: "real list batch list" where
  "example_test = [([[1, 0], [0, 1]], [0, 0])]"

definition example_world :: "real \<Rightarrow> (unit, unit) world" where
  "example_world b =
     \<lparr>inner_module = (), outer_module = (), global_step = 500, best_acc = b,
      files = Map.empty\<rparr>"

section \<open>Theorems\<close>

text \<open>
  C10: the number of classes handed to ResNet32 depends on the dataset string alone; it
  is 10 exactly when the string is \<^verbatim>\<open>cifar10\<close> and 100 for every other string.
\<close>

theorem num_classes_cifar10:
  "(num_classes a = PyInt 10) = (dataset a = ''cifar10'') \<and>
   (num_classes a = PyInt 100) = (dataset a \<noteq> ''cifar10'') \<and>
   num_classes a = (if dataset a = ''cifar10'' then PyInt 10 else PyInt 100)"
  by (simp add: num_classes_def py_or_def py_and_def)

theorem num_classes_cifar10_witness:
  "num_classes default_args = PyInt 10 \<and>
   num_classes (default_args\<lparr>dataset := ''cifar100''\<rparr>) = PyInt 100 \<and>
   num_classes (default_args\<lparr>dataset := ''CIFAR10''\<rparr>) = PyInt 100"
  using num_classes_cifar10 [of default_args]
    num_classes_cifar10 [of "default_args\<lparr>dataset := ''cifar100''\<rparr>"]
    num_classes_cifar10 [of "default_args\<lparr>dataset := ''CIFAR10''\<rparr>"]
  by (simp add: default_args_def)

text \<open>
  C5: in the meta-learning mode (neither flag set) the engine receives both problems, the
  upper-to-lower dictionary has the single entry outer to [inner], and the lower-to-upper
  dictionary has the single entry inner to [outer].
\<close>

theorem dependencies_mutual:
  assumes "\<not> baseline a" and "\<not> retrain a"
  shows "problems a = [Outer, Inner] \<and>
    u2l a = [Outer \<mapsto> [Inner]] \<and>
    l2u a = [Inner \<mapsto> [Outer]] \<and>
    dom (u2l a) = {Outer} \<and> u2l a Outer = Some [Inner] \<and>
    dom (l2u a) = {Inner} \<and> l2u a Inner = Some [Outer] \<and>
    dependencies a ''u2l'' = Some [Outer \<mapsto> [Inner]] \<and>
    dependencies a ''l2u'' = Some [Inner \<mapsto> [Outer]]"
  using assms by (simp add: problems_def u2l_def l2u_def dependencies_def)

theorem dependencies_mutual_witness:
  "problems default_args = [Outer, Inner] \<and>
   u2l default_args Outer = Some [Inner] \<and> u2l default_args Inner = None \<and>
   l2u default_args Inner = Some [Outer] \<and> l2u default_args Outer = None"
  using dependencies_mutual [of default_args]
  by (simp add: default_args_def)

subsection \<open>Auxiliary facts about the tensor operations\<close>

lemma sequence_map_Inr: "sequence (map (\<lambda>x. Inr (f x)) xs) = Inr (map f xs)"
  by (induction xs) simp_all

lemma mul_row_single: "length r = 1 \<Longrightarrow> mul_row r [l] = Inr [hd r * l]"
  by (cases r) (simp_all add: mul_row_def)

lemma map2_mul_row_col:
  "length W = length ls \<Longrightarrow> list_all (\<lambda>r. length r = 1) W \<Longrightarrow>
   map2 mul_row W (reshape_col ls) = map (\<lambda>(r, l). Inr [hd r * l]) (zip W ls)"
  by (induction W ls rule: list_induct2) (simp_all add: reshape_col_def mul_row_single)

lemma tensor_mul_col:
  assumes "length W = length ls" and "list_all (\<lambda>r. length r = 1) W"
  shows "tensor_mul W (reshape_col ls) = Inr (map (\<lambda>(r, l). [hd r * l]) (zip W ls))"
proof -
  have "length W = length (reshape_col ls)"
    using assms(1) by (simp add: reshape_col_def)
  then have "tensor_mul W (reshape_col ls) = sequence (map2 mul_row W (reshape_col ls))"
    by (simp add: tensor_mul_def)
  also have "\<dots> = sequence (map (\<lambda>x. Inr ((\<lambda>(r, l). [hd r * l]) x)) (zip W ls))"
    using map2_mul_row_col [OF assms] by (simp add: case_prod_unfold)
  also have "\<dots> = Inr (map (\<lambda>(r, l). [hd r * l]) (zip W ls))"
    by (rule sequence_map_Inr)
  finally show ?thesis .
qed

lemma concat_singletons: "concat (map (\<lambda>(r, l). [f r l]) zs) = map (\<lambda>(r, l). f r l) zs"
  by (induction zs) auto

lemma sum_list_map2_nth:
  "length W = length ls \<Longrightarrow>
   sum_list (map (\<lambda>(r, l). f r l) (zip W ls)) = (\<Sum>i<length ls. f (W ! i) (ls ! i))"
proof -
  assume len: "length W = length ls"
  have "sum_list (map (\<lambda>(r, l). f r l) (zip W ls))
        = (\<Sum>i = 0..<length (zip W ls). map (\<lambda>(r, l). f r l) (zip W ls) ! i)"
    by (simp add: sum_list_sum_nth)
  also have "\<dots> = (\<Sum>i = 0..<length ls. f (W ! i) (ls ! i))"
    using len by (intro sum.cong) simp_all
  finally show ?thesis by (simp add: lessThan_atLeast0)
qed

lemma cross_entropy_none_ok:
  "length outputs = length labels \<Longrightarrow> list_all (\<lambda>(row, y). y < length row) (zip outputs labels) \<Longrightarrow>
   cross_entropy_none outputs labels = Inr (map2 nll outputs labels)"
  by (auto simp: cross_entropy_none_def list_ex_iff list_all_iff)

lemma cross_entropy_none_rows:
  assumes "cross_entropy_none outputs labels = Inr ls"
  shows "argmax_dim1 outputs = Inr (map argmax outputs)"
proof -
  from assms have len: "length outputs = length labels"
    and ok: "\<forall>(row, y) \<in> set (zip outputs labels). y < length row"
    by (auto simp: cross_entropy_none_def list_ex_iff split: if_splits)
  have "row \<noteq> []" if "row \<in> set outputs" for row
  proof -
    from that obtain i where i: "i < length outputs" "outputs ! i = row"
      by (auto simp: in_set_conv_nth)
    then have "(row, labels ! i) \<in> set (zip outputs labels)"
      using len by (auto simp: set_zip)
    with ok have "labels ! i < length row" by blast
    then show ?thesis by auto
  qed
  then show ?thesis
    by (auto simp: argmax_dim1_def list_ex_iff)
qed

lemma Outer_training_step_loss:
  "map_sum id loss (Outer_training_step net p (inputs, labels)) = cross_entropy (net p inputs) labels"
proof (cases "cross_entropy_none (net p inputs) labels")
  case (Inl e)
  then show ?thesis
    by (simp add: Outer_training_step_def Inner_forward_def cross_entropy_def)
next
  case (Inr ls)
  then show ?thesis
    using cross_entropy_none_rows [OF Inr]
    by (simp add: Outer_training_step_def Inner_forward_def cross_entropy_def)
qed

lemma cross_entropy_mean:
  assumes "length outputs = length labels"
    and "list_all (\<lambda>(row, y). y < length row) (zip outputs labels)"
    and "labels \<noteq> []"
  shows "cross_entropy outputs labels =
    Inr (Val ((\<Sum>i<length labels. nll (outputs ! i) (labels ! i)) / real (length labels)))"
proof -
  have ne: "zip outputs labels \<noteq> []"
    using assms(1,3) by (cases outputs; cases labels) auto
  show ?thesis
    using cross_entropy_none_ok [OF assms(1,2)] sum_list_map2_nth [OF assms(1), of nll] ne assms(1)
    by (simp add: cross_entropy_def torch_mean_def)
qed

lemma get_lr_cases:
  "get_lr opt Inner_configure_scheduler t =
     (if t < 10000 then sgd_lr opt else if t < 13000 then sgd_lr opt / 10 else sgd_lr opt / 100)"
  by (simp add: get_lr_def Inner_configure_scheduler_def power2_eq_square)

lemma get_lr_antimono:
  assumes "0 \<le> sgd_lr opt" and "s \<le> t"
  shows "get_lr opt Inner_configure_scheduler t \<le> get_lr opt Inner_configure_scheduler s"
  using assms by (simp add: get_lr_cases)

text \<open>
  C1: with neither flag set, on a training batch whose labels match the network's rows, the
  inner training step returns the mean over the batch of \<open>w\<^sub>i * l\<^sub>i\<close>.  Here \<open>l\<close> is the vector
  of per-sample cross-entropy losses of the classifier's output against the labels and \<open>w\<close>
  is the output of the meta-weight network on that vector reshaped to a column (one weight
  per sample); the weights are applied before the average is taken.
\<close>

theorem Inner_training_step_weighted_mean:
  assumes meta: "\<not> baseline a" "\<not> retrain a"
    and sizes: "length (net p inputs) = length labels"
    and range: "list_all (\<lambda>(row, y). y < length row) (zip (net p inputs) labels)"
    and nonempty: "labels \<noteq> []"
    and l: "l = map2 nll (net p inputs) labels"
    and w: "w = mlp q (reshape_col l)"
    and shape: "length w = length l" "list_all (\<lambda>r. length r = 1) w"
  shows "Inner_training_step a net p mlp q (inputs, labels)
         = Inr (Val ((\<Sum>i<length labels. hd (w ! i) * l ! i) / real (length labels)))"
proof -
  have ce: "cross_entropy_none (net p inputs) labels = Inr l"
    using cross_entropy_none_ok [OF sizes range] l by simp
  have len: "length l = length labels"
    using sizes l by simp
  have mul: "tensor_mul w (reshape_col l) = Inr (map (\<lambda>(r, x). [hd r * x]) (zip w l))"
    using shape by (rule tensor_mul_col)
  have flat: "concat (map (\<lambda>(r, x). [hd r * x]) (zip w l)) = map (\<lambda>(r, x). hd r * x) (zip w l)"
    by (rule concat_singletons)
  have ne: "map (\<lambda>(r, x). hd r * x) (zip w l) \<noteq> []"
    using shape(1) len nonempty by (cases w; cases l) auto
  have total: "sum_list (map (\<lambda>(r, x). hd r * x) (zip w l)) = (\<Sum>i<length l. hd (w ! i) * l ! i)"
    using shape(1) by (rule sum_list_map2_nth)
  have "Inner_training_step a net p mlp q (inputs, labels)
        = Inr (torch_mean (map (\<lambda>(r, x). hd r * x) (zip w l)))"
    using meta ce mul flat w
    by (simp add: Inner_training_step_def Inner_forward_def Outer_forward_def detach_def)
  also have "\<dots> = Inr (Val ((\<Sum>i<length labels. hd (w ! i) * l ! i) / real (length labels)))"
    using ne total shape(1) len by (simp add: torch_mean_def)
  finally show ?thesis .
qed

theorem Inner_training_step_weighted_mean_witness:
  "Inner_training_step default_args (\<lambda>p xs. xs) () (\<lambda>q t. map (map (\<lambda>v. q)) t) (1 / 2)
     ([[0, 0], [0, 0]], [0, 1]) = Inr (Val (ln 2 / 2))"
  using Inner_training_step_weighted_mean [of default_args "\<lambda>p xs. xs" "()" "[[0, 0], [0, 0]]" "[0, 1]" "[ln 2, ln 2]"
      "[[1 / 2], [1 / 2]]" "\<lambda>q t. map (map (\<lambda>v. q)) t" "1 / 2"]
  by (simp add: default_args_def nll_def reshape_col_def numeral_2_eq_2 lessThan_Suc)

text \<open>
  C3: on every meta batch the loss entry of the outer training step (or its error) is the
  mean cross-entropy of the classifier's predictions on that batch, evaluated with the
  inner problem's parameters at the time of the call, which in an engine iteration are
  the parameters after the inner update; the outer problem trains on the meta data
  loader; and its optimizer is Adam over the outer module with learning rate meta_lr and
  weight decay meta_weight_decay.
\<close>

theorem Outer_training_step_meta_loss:
  "map_sum id loss (Outer_training_step net p (inputs, labels))
     = cross_entropy (net p inputs) labels \<and>
   (length (net p inputs) = length labels \<and>
    list_all (\<lambda>(row, y). y < length row) (zip (net p inputs) labels) \<and> labels \<noteq> [] \<longrightarrow>
      map_sum id loss (Outer_training_step net p (inputs, labels)) =
        Inr (Val ((\<Sum>i<length labels. nll (net p inputs ! i) (labels ! i))
                  / real (length labels)))) \<and>
   map_sum id loss (engine_meta_loss net inner_update p0 q train_batch (inputs, labels))
     = cross_entropy (net (inner_update p0 q train_batch) inputs) labels \<and>
   Outer_configure_train_data_loader dl = meta_dataloader dl \<and>
   (Outer_configure_optimizer a = Inr opt \<longrightarrow>
      adam_params opt = Outer \<and> adam_lr opt = meta_lr a \<and>
      adam_weight_decay opt = meta_weight_decay a) \<and>
   (0 \<le> meta_lr a \<and> 0 \<le> meta_weight_decay a \<longrightarrow>
      (\<exists>opt'. Outer_configure_optimizer a = Inr opt'))"
proof -
  have mean: "length (net p inputs) = length labels \<and>
      list_all (\<lambda>(row, y). y < length row) (zip (net p inputs) labels) \<and> labels \<noteq> [] \<longrightarrow>
      map_sum id loss (Outer_training_step net p (inputs, labels)) =
        Inr (Val ((\<Sum>i<length labels. nll (net p inputs ! i) (labels ! i))
                  / real (length labels)))"
    using cross_entropy_mean [of "net p inputs" labels]
    by (simp add: Outer_training_step_loss)
  have adam: "Outer_configure_optimizer a = Inr opt \<longrightarrow>
      adam_params opt = Outer \<and> adam_lr opt = meta_lr a \<and>
      adam_weight_decay opt = meta_weight_decay a"
    by (auto simp: Outer_configure_optimizer_def split: if_splits)
  have built: "0 \<le> meta_lr a \<and> 0 \<le> meta_weight_decay a \<longrightarrow>
      (\<exists>opt'. Outer_configure_optimizer a = Inr opt')"
    by (simp add: Outer_configure_optimizer_def)
  show ?thesis
    using mean adam built
    by (simp add: Outer_training_step_loss engine_meta_loss_def
        Outer_configure_train_data_loader_def)
qed

theorem Outer_training_step_meta_loss_witness:
  "map_sum id loss (Outer_training_step (\<lambda>p xs. map (map ((*) p)) xs) 3 ([[0, 0]], [1]))
     = Inr (Val (ln 2)) \<and>
   map_sum id loss (engine_meta_loss (\<lambda>p xs. map (map ((*) p)) xs) (\<lambda>p q b. p + q) 1 2
       ([], []) ([[0, 0]], [1]))
     = Inr (Val (ln 2)) \<and>
   Outer_configure_train_data_loader
     \<lparr>train_dataloader = [], meta_dataloader = [()], test_dataloader = []\<rparr> = [()] \<and>
   Outer_configure_optimizer default_args =
     Inr \<lparr>adam_params = Outer, adam_lr = 1 / 100000, adam_weight_decay = 0\<rparr>"
proof -
  have built: "Outer_configure_optimizer default_args =
     Inr \<lparr>adam_params = Outer, adam_lr = 1 / 100000, adam_weight_decay = 0\<rparr>"
    by (simp add: Outer_configure_optimizer_def default_args_def)
  show ?thesis
    using built
      Outer_training_step_meta_loss [of "\<lambda>p xs. map (map ((*) p)) xs" 3 "[[0, 0]]" "[1]" "\<lambda>p q b. p + q" 1 2 "([], [])"
        "\<lparr>train_dataloader = [], meta_dataloader = [()], test_dataloader = []\<rparr>" default_args
        "\<lparr>adam_params = Outer, adam_lr = 1 / 100000, adam_weight_decay = 0\<rparr>"]
    by (simp add: nll_def cross_entropy_def cross_entropy_none_def torch_mean_def)
qed

text \<open>
  C4: the reweighting is switched off exactly by the flags.  With baseline or retrain set
  the inner training step is the plain mean cross-entropy, whatever the meta-weight
  network is, and the engine gets the inner problem alone with two empty dependency
  dictionaries; without them the step is the weighted one and the setup is not that one.
\<close>

theorem reweighting_disabled_by_flags:
  "(baseline a \<or> retrain a \<longrightarrow>
      Inner_training_step a net p mlp q (inputs, labels) = cross_entropy (net p inputs) labels \<and>
      Inner_training_step a net p mlp' q' (inputs, labels)
        = Inner_training_step a net p mlp q (inputs, labels)) \<and>
   (\<not> (baseline a \<or> retrain a) \<longrightarrow>
      Inner_training_step a net p mlp q (inputs, labels) =
        (case cross_entropy_none (net p inputs) labels of
           Inl e \<Rightarrow> Inl e
         | Inr ls \<Rightarrow>
             (case tensor_mul (mlp q (reshape_col ls)) (reshape_col ls) of
                Inl e \<Rightarrow> Inl e
              | Inr t \<Rightarrow> Inr (torch_mean (concat t))))) \<and>
   (problems a = [Inner]) = (baseline a \<or> retrain a) \<and>
   (u2l a = Map.empty) = (baseline a \<or> retrain a) \<and>
   (l2u a = Map.empty) = (baseline a \<or> retrain a) \<and>
   (baseline a \<or> retrain a \<longrightarrow>
      dependencies a = [''l2u'' \<mapsto> Map.empty, ''u2l'' \<mapsto> Map.empty])"
proof -
  have u: "[Outer \<mapsto> [Inner]] \<noteq> Map.empty" and l: "[Inner \<mapsto> [Outer]] \<noteq> Map.empty"
    by (simp_all add: fun_upd_def fun_eq_iff) 
  show ?thesis
    using u l
    by (simp add: Inner_training_step_def Inner_forward_def Outer_forward_def detach_def
        problems_def u2l_def l2u_def dependencies_def Let_def cong: sum.case_cong)
qed

theorem reweighting_disabled_by_flags_witness:
  "Inner_training_step (default_args\<lparr>baseline := True\<rparr>) (\<lambda>p xs. xs) ()
     (\<lambda>q t. map (map (\<lambda>v. q)) t) (1 / 2) ([[0, 0], [0, 0]], [0, 1]) = Inr (Val (ln 2)) \<and>
   problems (default_args\<lparr>retrain := True\<rparr>) = [Inner] \<and>
   u2l (default_args\<lparr>retrain := True\<rparr>) = Map.empty \<and>
   l2u (default_args\<lparr>baseline := True\<rparr>) = Map.empty"
  using reweighting_disabled_by_flags [of "default_args\<lparr>baseline := True\<rparr>" "\<lambda>p xs. xs" "()"
      "\<lambda>q t. map (map (\<lambda>v. q)) t" "1 / 2" "[[0, 0], [0, 0]]" "[0, 1]"
      "\<lambda>q t. map (map (\<lambda>v. q)) t" "1 / 2"]
    reweighting_disabled_by_flags [of "default_args\<lparr>retrain := True\<rparr>" "\<lambda>p xs. xs" "()"
      "\<lambda>q t. map (map (\<lambda>v. q)) t" "1 / 2" "[[0, 0], [0, 0]]" "[0, 1]"
      "\<lambda>q t. map (map (\<lambda>v. q)) t" "1 / 2"]
  by (simp add: default_args_def cross_entropy_def cross_entropy_none_def nll_def torch_mean_def)

text \<open>
  C7: the inner optimizer is SGD over the classifier's parameters with the command line's
  learning rate, momentum, dampening, weight decay and Nesterov flag; the scheduler has
  the milestones 10000 and 13000 and the factor 0.1, so the rate is the initial one
  before step 10000, a tenth of it from there to step 13000 and a hundredth after, and it
  never increases.
\<close>

theorem learning_rate_schedule:
  assumes "Inner_configure_optimizer a = Inr opt"
  shows "sgd_params opt = Inner \<and> sgd_lr opt = lr a \<and> sgd_momentum opt = momentum a \<and>
    sgd_dampening opt = dampening a \<and> sgd_weight_decay opt = weight_decay a \<and>
    sgd_nesterov opt = nesterov a \<and>
    milestones Inner_configure_scheduler = [10000, 13000] \<and>
    gamma Inner_configure_scheduler = 1 / 10 \<and>
    get_lr opt Inner_configure_scheduler t =
      (if t < 10000 then lr a else if t < 13000 then lr a / 10 else lr a / 100) \<and>
    get_lr opt Inner_configure_scheduler 10000 = get_lr opt Inner_configure_scheduler 9999 / 10 \<and>
    get_lr opt Inner_configure_scheduler 13000 = get_lr opt Inner_configure_scheduler 12999 / 10 \<and>
    (s \<le> t \<longrightarrow> get_lr opt Inner_configure_scheduler t \<le> get_lr opt Inner_configure_scheduler s)"
proof -
  from assms have ok: "0 \<le> lr a" and opt: "opt = \<lparr>sgd_params = Inner, sgd_lr = lr a,
      sgd_momentum = momentum a, sgd_dampening = dampening a,
      sgd_weight_decay = weight_decay a, sgd_nesterov = nesterov a\<rparr>"
    by (auto simp: Inner_configure_optimizer_def split: if_splits)
  have nonneg: "0 \<le> sgd_lr opt" using ok opt by simp
  have mono: "s \<le> t \<longrightarrow>
      get_lr opt Inner_configure_scheduler t \<le> get_lr opt Inner_configure_scheduler s"
    using get_lr_antimono [OF nonneg] by blast
  have sch: "milestones Inner_configure_scheduler = [10000, 13000] \<and>
      gamma Inner_configure_scheduler = 1 / 10"
    by (simp add: Inner_configure_scheduler_def)
  have fields: "sgd_params opt = Inner \<and> sgd_lr opt = lr a \<and> sgd_momentum opt = momentum a \<and>
      sgd_dampening opt = dampening a \<and> sgd_weight_decay opt = weight_decay a \<and>
      sgd_nesterov opt = nesterov a"
    using opt by simp
  have steps: "get_lr opt Inner_configure_scheduler t =
        (if t < 10000 then lr a else if t < 13000 then lr a / 10 else lr a / 100) \<and>
      get_lr opt Inner_configure_scheduler 10000 = get_lr opt Inner_configure_scheduler 9999 / 10 \<and>
      get_lr opt Inner_configure_scheduler 13000 = get_lr opt Inner_configure_scheduler 12999 / 10"
    using fields by (simp add: get_lr_cases)
  show ?thesis
    using mono sch fields steps by blast
qed

theorem learning_rate_schedule_witness:
  "Inner_configure_optimizer default_args =
     Inr \<lparr>sgd_params = Inner, sgd_lr = 1 / 10, sgd_momentum = 9 / 10, sgd_dampening = 0,
          sgd_weight_decay = 5 / 10000, sgd_nesterov = False\<rparr> \<and>
   get_lr \<lparr>sgd_params = Inner, sgd_lr = 1 / 10, sgd_momentum = 9 / 10, sgd_dampening = 0,
          sgd_weight_decay = 5 / 10000, sgd_nesterov = False\<rparr> Inner_configure_scheduler 13000
     = 1 / 1000 \<and>
   get_lr \<lparr>sgd_params = Inner, sgd_lr = 1 / 10, sgd_momentum = 9 / 10, sgd_dampening = 0,
          sgd_weight_decay = 5 / 10000, sgd_nesterov = False\<rparr> Inner_configure_scheduler 13000
     \<le> get_lr \<lparr>sgd_params = Inner, sgd_lr = 1 / 10, sgd_momentum = 9 / 10, sgd_dampening = 0,
          sgd_weight_decay = 5 / 10000, sgd_nesterov = False\<rparr> Inner_configure_scheduler 9999"
proof -
  have built: "Inner_configure_optimizer default_args =
     Inr \<lparr>sgd_params = Inner, sgd_lr = 1 / 10, sgd_momentum = 9 / 10, sgd_dampening = 0,
          sgd_weight_decay = 5 / 10000, sgd_nesterov = False\<rparr>"
    by (simp add: Inner_configure_optimizer_def default_args_def)
  show ?thesis
    using built learning_rate_schedule [OF built, of 13000 9999] by (simp add: default_args_def)
qed

subsection \<open>Auxiliary facts about validation and the engine loop\<close>

lemma str_nat_500: "str_nat 500 = ''500''"
  by (simp add: str_nat.simps)

lemma example_test_loop: "test_loop logits_classifier () example_test 0 0 = Inr (1, 2)"
  by (simp add: example_test_def logits_classifier_def Inner_forward_def argmax_dim1_def
      argmax_def count_equal_def)

lemma example_validation_meta:
  "validation default_args logits_classifier example_test (example_world b) =
     Inr (\<lparr>result_acc = 50, result_best_acc = max b 50\<rparr>,
          \<lparr>inner_module = (), outer_module = (), global_step = 500, best_acc = max b 50,
           files = [''cifar10/net_500.pt'' \<mapsto> InnerState (),
                    ''cifar10/meta_net_500.pt'' \<mapsto> OuterState ()]\<rparr>)"
  by (simp add: validation_def example_test_loop example_world_def default_args_def
      net_path_def meta_net_path_def str_nat_500 max_def)

lemma example_validation_baseline:
  "validation (default_args\<lparr>baseline := True\<rparr>) logits_classifier example_test (example_world b) =
     Inr (\<lparr>result_acc = 50, result_best_acc = max b 50\<rparr>,
          \<lparr>inner_module = (), outer_module = (), global_step = 500, best_acc = max b 50,
           files = Map.empty\<rparr>)"
  by (simp add: validation_def example_test_loop example_world_def default_args_def max_def)

lemma example_validation_total:
  "\<forall>v :: (unit, unit) world. \<exists>r v'.
     validation default_args logits_classifier example_test v = Inr (r, v')"
  by (simp add: validation_def example_test_loop Let_def)

lemma test_loop_total:
  "test_loop net p test c t = Inr (c', t') \<Longrightarrow>
   t' = t + sum_list (map (\<lambda>(x, target). length x) test) \<and> c \<le> c'"
proof (induction test arbitrary: c t)
  case Nil
  then show ?case by simp
next
  case (Cons b rest)
  obtain x target where b: "b = (x, target)" by (cases b)
  from Cons.prems b obtain preds k where
    step: "test_loop net p rest (c + k) (t + length x) = Inr (c', t')"
    by (auto split: sum.splits)
  from Cons.IH [OF step] show ?case using b by simp
qed

lemma validation_InrD:
  assumes "validation a net test w = Inr (r, w')"
  shows "\<exists>c t. test_loop net (inner_module w) test 0 0 = Inr (c, t) \<and> 0 < t \<and>
           result_acc r = real c / real t * 100"
    and "best_acc w' = max (best_acc w) (result_acc r)"
    and "result_best_acc r = best_acc w'"
    and "files w' = (if \<not> retrain a \<and> \<not> baseline a
           then (files w)(net_path a (global_step w) \<mapsto> InnerState (inner_module w),
                          meta_net_path a (global_step w) \<mapsto> OuterState (outer_module w))
           else files w)"
    and "global_step w' = global_step w"
    and "inner_module w' = inner_module w"
    and "outer_module w' = outer_module w"
  using assms
  by (auto simp: validation_def Let_def max_def split: sum.splits prod.splits if_splits)

lemma validation_acc_nonneg:
  "validation a net test w = Inr (r, w') \<Longrightarrow> 0 \<le> result_acc r"
  by (auto dest!: validation_InrD(1))

lemma validation_global_step:
  "validation a net test w = Inr (r, w') \<Longrightarrow> global_step w' = global_step w"
  by (auto simp: validation_def Let_def split: sum.splits prod.splits if_splits)

lemma paths_differ: "net_path a n \<noteq> meta_net_path a n"
  by (simp add: net_path_def meta_net_path_def)

lemma reaches_best_acc:
  assumes "reaches a net test s0 s"
  shows "\<exists>new. snd s = snd s0 @ new \<and> (\<forall>x \<in> set new. 0 \<le> x) \<and>
           best_acc (fst s) = Max (insert (best_acc (fst s0)) (set new))"
  using assms
proof (induction rule: reaches.induct)
  case (start s)
  show ?case by (rule exI [of _ "[]"]) simp
next
  case (train s w accs p q g)
  then show ?case by simp
next
  case (valid s w accs r w')
  then obtain new where new: "accs = snd s @ new" "\<forall>x \<in> set new. 0 \<le> x"
    "best_acc w = Max (insert (best_acc (fst s)) (set new))"
    by auto
  have fin: "finite (insert (best_acc (fst s)) (set new))"
    and ne: "insert (best_acc (fst s)) (set new) \<noteq> {}" by simp_all
  have "best_acc w' = max (result_acc r) (best_acc w)"
    using validation_InrD(2) [OF valid.hyps(2)] by (simp add: max.commute)
  also have "\<dots> = Max (insert (result_acc r) (insert (best_acc (fst s)) (set new)))"
    using new(3) Max_insert [OF fin ne, of "result_acc r"] by simp
  also have "\<dots> = Max (insert (best_acc (fst s)) (set (new @ [result_acc r])))"
    by (simp add: insert_commute)
  finally have best: "best_acc w' = Max (insert (best_acc (fst s)) (set (new @ [result_acc r])))" .
  show ?case
    using new(1,2) best validation_acc_nonneg [OF valid.hyps(2)]
    by (intro exI [of _ "new @ [result_acc r]"]) auto
qed

lemma reaches_mono:
  assumes "reaches a net test s0 s"
  shows "best_acc (fst s0) \<le> best_acc (fst s)"
proof -
  from reaches_best_acc [OF assms] obtain new where
    "best_acc (fst s) = Max (insert (best_acc (fst s0)) (set new))" by blast
  then show ?thesis by simp
qed

lemma engine_iteration_ok:
  fixes w :: "('p, 'q) world"
  assumes train: "\<forall>k m. \<exists>m'. train_step k m = Inr m'"
    and valid: "\<forall>v :: ('p, 'q) world. \<exists>r v'. validation a net test v = Inr (r, v')"
    and pos: "0 < valid_step cfg"
  shows "\<exists>w' logged'. engine_iteration cfg a net test train_step it (w, logged) = Inr (w', logged') \<and>
           global_step w' = Suc (global_step w) \<and>
           length logged' = length logged + (if it mod valid_step cfg = 0 then 1 else 0)"
proof -
  from train obtain p q where t: "train_step it (inner_module w, outer_module w) = Inr (p, q)"
    by (metis surj_pair)
  let ?w1 = "w\<lparr>inner_module := p, outer_module := q, global_step := global_step w + 1\<rparr>"
  from valid obtain r w2 where v: "validation a net test ?w1 = Inr (r, w2)"
    by blast
  from validation_global_step [OF v] have "global_step w2 = Suc (global_step w)"
    by simp
  then show ?thesis
    using t v pos by (simp add: engine_iteration_def)
qed

lemma engine_loop_ok:
  fixes w :: "('p, 'q) world"
  assumes train: "\<forall>k m. \<exists>m'. train_step k m = Inr m'"
    and valid: "\<forall>v :: ('p, 'q) world. \<exists>r v'. validation a net test v = Inr (r, v')"
    and pos: "0 < valid_step cfg"
  shows "it \<le> Suc (train_iters cfg) \<Longrightarrow>
    \<exists>w' logged'. engine_loop cfg (engine_iteration cfg a net test train_step) it (w, logged)
        = Inr (w', logged') \<and>
      global_step w' = global_step w + (Suc (train_iters cfg) - it) \<and>
      length logged' = length logged
        + length (filter (\<lambda>k. k mod valid_step cfg = 0) [it..<Suc (train_iters cfg)])"
proof (induction "Suc (train_iters cfg) - it" arbitrary: it w logged)
  case 0
  then have "\<not> it \<le> train_iters cfg" by simp
  then show ?case
    using 0 by (subst engine_loop.simps) simp
next
  case (Suc n)
  then have le: "it \<le> train_iters cfg" by simp
  from engine_iteration_ok [OF train valid pos, where it = it and w = w and logged = logged]
  obtain w1 logged1 where
    step: "engine_iteration cfg a net test train_step it (w, logged) = Inr (w1, logged1)"
      "global_step w1 = Suc (global_step w)"
      "length logged1 = length logged + (if it mod valid_step cfg = 0 then 1 else 0)"
    by blast
  have "n = Suc (train_iters cfg) - Suc it" and "Suc it \<le> Suc (train_iters cfg)"
    using Suc.hyps(2) le by simp_all
  from Suc.hyps(1) [OF this, of w1 logged1]
  obtain w' logged' where
    rest: "engine_loop cfg (engine_iteration cfg a net test train_step) (Suc it) (w1, logged1)
        = Inr (w', logged')"
      "global_step w' = global_step w1 + (Suc (train_iters cfg) - Suc it)"
      "length logged' = length logged1
        + length (filter (\<lambda>k. k mod valid_step cfg = 0) [Suc it..<Suc (train_iters cfg)])"
    by blast
  have unfold: "[it..<Suc (train_iters cfg)] = it # [Suc it..<Suc (train_iters cfg)]"
    using le by (simp add: upt_conv_Cons)
  have "engine_loop cfg (engine_iteration cfg a net test train_step) it (w, logged)
        = Inr (w', logged')"
    using le step(1) rest(1) by (subst engine_loop.simps) simp
  moreover have "global_step w' = global_step w + (Suc (train_iters cfg) - it)"
    using rest(2) step(2) le by simp
  moreover have "length logged' = length logged
        + length (filter (\<lambda>k. k mod valid_step cfg = 0) [it..<Suc (train_iters cfg)])"
    using rest(3) step(3) unfold by simp
  ultimately show ?case by blast
qed

lemma multiples_upto:
  "0 < v \<Longrightarrow> length (filter (\<lambda>k. k mod v = 0) [1..<Suc n]) = n div v"
proof (induction n)
  case 0
  then show ?case by simp
next
  case (Suc n)
  then show ?case by (simp add: div_Suc)
qed

text \<open>
  C2, as the code has it: a validation that returns writes the checkpoint whenever
  neither baseline nor retrain is set, whether or not the accuracy improved: the inner
  and the outer state dictionaries, under two file names that carry the data set and the
  global step.  With baseline or retrain set it writes no file.  \<^verbatim>\<open>best_acc\<close> keeps the
  best accuracy seen.
\<close>

theorem validation_checkpoints_every_call:
  assumes "validation a net test w = Inr (r, w')"
  shows "(\<not> baseline a \<and> \<not> retrain a \<longrightarrow>
       files w' = (files w)(net_path a (global_step w) \<mapsto> InnerState (inner_module w),
                            meta_net_path a (global_step w) \<mapsto> OuterState (outer_module w)) \<and>
       files w' (net_path a (global_step w)) = Some (InnerState (inner_module w)) \<and>
       files w' (meta_net_path a (global_step w)) = Some (OuterState (outer_module w))) \<and>
     (baseline a \<or> retrain a \<longrightarrow> files w' = files w) \<and>
     best_acc w' = max (best_acc w) (result_acc r)"
  using validation_InrD(2,4) [OF assms] paths_differ [of a "global_step w"]
  by auto

theorem validation_checkpoints_every_call_witness:
  "files \<lparr>inner_module = (), outer_module = (), global_step = 500, best_acc = 100,
          files = [''cifar10/net_500.pt'' \<mapsto> InnerState (),
                   ''cifar10/meta_net_500.pt'' \<mapsto> OuterState ()]\<rparr>
       (net_path default_args 500) = Some (InnerState ()) \<and>
   files \<lparr>inner_module = (), outer_module = (), global_step = 500, best_acc = 100,
          files = [''cifar10/net_500.pt'' \<mapsto> InnerState (),
                   ''cifar10/meta_net_500.pt'' \<mapsto> OuterState ()]\<rparr>
       (meta_net_path default_args 500) = Some (OuterState ()) \<and>
   net_path default_args 500 = ''cifar10/net_500.pt'' \<and>
   meta_net_path default_args 500 = ''cifar10/meta_net_500.pt''"
  using validation_checkpoints_every_call [OF example_validation_meta [of 100]]
  by (simp add: example_world_def default_args_def net_path_def meta_net_path_def str_nat_500)

text \<open>
  C2, as stated, fails in both directions.  With the default options a validation at
  accuracy 50 against a previous best of 100 improves nothing and still writes the two
  checkpoint files; with baseline set a validation that improves on the previous best
  writes none.
\<close>

theorem checkpoint_not_tied_to_improvement:
  "validation default_args logits_classifier example_test (example_world 100) =
     Inr (\<lparr>result_acc = 50, result_best_acc = 100\<rparr>,
          \<lparr>inner_module = (), outer_module = (), global_step = 500, best_acc = 100,
           files = [''cifar10/net_500.pt'' \<mapsto> InnerState (),
                    ''cifar10/meta_net_500.pt'' \<mapsto> OuterState ()]\<rparr>) \<and>
   \<not> best_acc (example_world 100) < 50 \<and>
   files (example_world 100) ''cifar10/net_500.pt'' = None \<and>
   validation (default_args\<lparr>baseline := True\<rparr>) logits_classifier example_test
       (example_world (- 1)) =
     Inr (\<lparr>result_acc = 50, result_best_acc = 50\<rparr>,
          \<lparr>inner_module = (), outer_module = (), global_step = 500, best_acc = 50,
           files = files (example_world (- 1))\<rparr>) \<and>
   best_acc (example_world (- 1)) < 50"
  using example_validation_meta [of 100] example_validation_baseline [of "- 1"]
  by (simp add: example_world_def)

text \<open>
  C6: the engine is configured with 15000 training iterations and a validation every 500
  steps.  When no training step and no validation raises, the run returns after exactly
  15000 steps and 30 validations, and an iteration validates exactly when its number is a
  multiple of 500.  The loop is total: \<open>engine_loop\<close> is defined with a termination proof
  on the remaining number of iterations.
\<close>

theorem engine_run_fixed_iterations:
  fixes w :: "('p, 'q) world"
  assumes train: "\<forall>k m. \<exists>m'. train_step k m = Inr m'"
    and valid: "\<forall>v :: ('p, 'q) world. \<exists>r v'. validation a net test v = Inr (r, v')"
  shows "train_iters (engine_config a) = 15000 \<and> valid_step (engine_config a) = 500 \<and>
    (\<exists>w' logged'. engine_run a net test train_step (w, logged) = Inr (w', logged') \<and>
       global_step w' = global_step w + 15000 \<and> length logged' = length logged + 30) \<and>
    (\<exists>w1 logged1. engine_iteration (engine_config a) a net test train_step it (w, logged)
         = Inr (w1, logged1) \<and>
       global_step w1 = Suc (global_step w) \<and>
       length logged1 = length logged + (if it mod 500 = 0 then 1 else 0))"
proof -
  have cfg: "train_iters (engine_config a) = 15000" "valid_step (engine_config a) = 500"
    by (simp_all add: engine_config_def)
  have pos: "0 < valid_step (engine_config a)" by (simp add: cfg)
  have count: "length (filter (\<lambda>k. k mod 500 = 0) [1..<Suc 15000]) = (30::nat)"
    using multiples_upto [of 500 15000] by simp
  from engine_loop_ok [OF train valid pos, where it = 1 and w = w and logged = logged]
  obtain w' logged' where
    "engine_loop (engine_config a) (engine_iteration (engine_config a) a net test train_step)
        1 (w, logged) = Inr (w', logged')"
    "global_step w' = global_step w + (Suc 15000 - 1)"
    "length logged' = length logged + length (filter (\<lambda>k. k mod 500 = 0) [1..<Suc 15000])"
    by (auto simp: cfg)
  then have run: "\<exists>w' logged'. engine_run a net test train_step (w, logged) = Inr (w', logged') \<and>
       global_step w' = global_step w + 15000 \<and> length logged' = length logged + 30"
    using count by (auto simp: engine_run_def)
  have iter: "\<exists>w1 logged1. engine_iteration (engine_config a) a net test train_step it (w, logged)
         = Inr (w1, logged1) \<and>
       global_step w1 = Suc (global_step w) \<and>
       length logged1 = length logged + (if it mod 500 = 0 then 1 else 0)"
    using engine_iteration_ok [OF train valid pos, where it = it and w = w and logged = logged] by (simp add: cfg)
  show ?thesis
    using cfg run iter by blast
qed

theorem engine_run_fixed_iterations_witness:
  "\<exists>w' logged'.
     engine_run default_args logits_classifier example_test (\<lambda>k m. Inr m)
       ((example_world (- 1))\<lparr>global_step := 0\<rparr>, []) = Inr (w', logged') \<and>
     global_step w' = 15000 \<and> length logged' = 30"
proof -
  have train: "\<forall>k (m :: unit \<times> unit). \<exists>m'. (Inr m :: error + unit \<times> unit) = Inr m'"
    by simp
  show ?thesis
    using engine_run_fixed_iterations [OF train example_validation_total,
        where w = "(example_world (- 1))\<lparr>global_step := 0\<rparr>" and logged = "[]" and it = 1]
    by (simp add: example_world_def)
qed

text \<open>
  C9: \<^verbatim>\<open>best_acc\<close> starts at -1; a validation that returns sets it to the maximum of
  its previous value and the accuracy just computed, 100 times the correct predictions
  over the number of test samples; at every point of a run it is the maximum of -1 and
  the accuracies of the validations so far, hence, after at least one validation, the
  maximum accuracy observed; and it never decreases later in the run.
\<close>

theorem best_acc_running_maximum:
  assumes run: "reaches a net test (w0, []) (w, accs)"
    and init: "best_acc w0 = initial_best_acc"
  shows "initial_best_acc = - 1 \<and>
    best_acc w = Max (insert (- 1) (set accs)) \<and>
    (accs \<noteq> [] \<longrightarrow> best_acc w = Max (set accs)) \<and>
    (validation a net test w = Inr (r, w') \<longrightarrow>
       best_acc w' = max (best_acc w) (result_acc r) \<and>
       result_best_acc r = best_acc w' \<and>
       (\<exists>c t. test_loop net (inner_module w) test 0 0 = Inr (c, t) \<and>
          t = sum_list (map (\<lambda>(x, target). length x) test) \<and>
          result_acc r = 100 * real c / real t)) \<and>
    (reaches a net test (w, accs) (w2, accs2) \<longrightarrow> best_acc w \<le> best_acc w2)"
proof -
  from reaches_best_acc [OF run] init
  have all: "\<forall>x \<in> set accs. 0 \<le> x" and best: "best_acc w = Max (insert (- 1) (set accs))"
    by (auto simp: initial_best_acc_def)
  have nonempty: "accs \<noteq> [] \<longrightarrow> best_acc w = Max (set accs)"
  proof
    assume ne: "accs \<noteq> []"
    then have "Max (insert (- 1) (set accs)) = max (- 1) (Max (set accs))"
      by simp
    moreover have "0 \<le> Max (set accs)"
    proof -
      from ne obtain x where x: "x \<in> set accs" by (cases accs) auto
      with all have "0 \<le> x" by blast
      also have "x \<le> Max (set accs)" using x by simp
      finally show ?thesis .
    qed
    ultimately show "best_acc w = Max (set accs)"
      using best by simp
  qed
  have call: "validation a net test w = Inr (r, w') \<longrightarrow>
       best_acc w' = max (best_acc w) (result_acc r) \<and>
       result_best_acc r = best_acc w' \<and>
       (\<exists>c t. test_loop net (inner_module w) test 0 0 = Inr (c, t) \<and>
          t = sum_list (map (\<lambda>(x, target). length x) test) \<and>
          result_acc r = 100 * real c / real t)"
  proof
    assume v: "validation a net test w = Inr (r, w')"
    from validation_InrD(1) [OF v] obtain c t where
      ct: "test_loop net (inner_module w) test 0 0 = Inr (c, t)"
        "result_acc r = real c / real t * 100" by blast
    from test_loop_total [OF ct(1)] have "t = sum_list (map (\<lambda>(x, target). length x) test)"
      by simp
    with ct validation_InrD(2,3) [OF v]
    show "best_acc w' = max (best_acc w) (result_acc r) \<and>
       result_best_acc r = best_acc w' \<and>
       (\<exists>c t. test_loop net (inner_module w) test 0 0 = Inr (c, t) \<and>
          t = sum_list (map (\<lambda>(x, target). length x) test) \<and>
          result_acc r = 100 * real c / real t)"
      by simp
  qed
  have mono: "reaches a net test (w, accs) (w2, accs2) \<longrightarrow> best_acc w \<le> best_acc w2"
    using reaches_mono [of a net test "(w, accs)" "(w2, accs2)"] by simp
  show ?thesis
    using best nonempty call mono by (simp add: initial_best_acc_def)
qed

theorem best_acc_running_maximum_witness:
  "best_acc \<lparr>inner_module = (), outer_module = (), global_step = 500, best_acc = 50,
      files = [''cifar10/net_500.pt'' \<mapsto> InnerState (),
               ''cifar10/meta_net_500.pt'' \<mapsto> OuterState ()]\<rparr> = Max (set [50]) \<and>
   reaches default_args logits_classifier example_test (example_world initial_best_acc, [])
     (\<lparr>inner_module = (), outer_module = (), global_step = 500, best_acc = 50,
      files = [''cifar10/net_500.pt'' \<mapsto> InnerState (),
               ''cifar10/meta_net_500.pt'' \<mapsto> OuterState ()]\<rparr>, [50])"
proof -
  have v: "validation default_args logits_classifier example_test (example_world initial_best_acc) =
     Inr (\<lparr>result_acc = 50, result_best_acc = 50\<rparr>,
          \<lparr>inner_module = (), outer_module = (), global_step = 500, best_acc = 50,
           files = [''cifar10/net_500.pt'' \<mapsto> InnerState (),
                    ''cifar10/meta_net_500.pt'' \<mapsto> OuterState ()]\<rparr>)"
    using example_validation_meta [of initial_best_acc] by (simp add: initial_best_acc_def)
  have run: "reaches default_args logits_classifier example_test (example_world initial_best_acc, [])
     (\<lparr>inner_module = (), outer_module = (), global_step = 500, best_acc = 50,
      files = [''cifar10/net_500.pt'' \<mapsto> InnerState (),
               ''cifar10/meta_net_500.pt'' \<mapsto> OuterState ()]\<rparr>, [50])"
  proof -
    have "reaches default_args logits_classifier example_test
        (example_world initial_best_acc, []) (example_world initial_best_acc, [])"
      by (rule reaches.start)
    from reaches.valid [OF this v] show ?thesis by simp
  qed
  have init: "best_acc (example_world initial_best_acc) = initial_best_acc"
    by (simp add: example_world_def)
  show ?thesis
    using run best_acc_running_maximum [OF run init] by simp
qed

end
